theory Spec2Isabelle
  imports Complex_Main "HOL-Library.Sublist"
begin

section \<open>Python strings\<close>

text \<open>
  A Python \<^verbatim>\<open>str\<close> is a \<^typ>\<open>string\<close> whose characters stand for the code points
  U+0000 .. U+00FF; \<^verbatim>\<open>bytes\<close> and their \<^verbatim>\<open>decode()\<close> are the same list (decoding
  errors are outside the model). The functions of this section are the built-in string
  methods that \<^verbatim>\<open>read\<close> in \<^verbatim>\<open>pycof/data.py\<close> calls.
\<close>

definition is_space :: "char \<Rightarrow> bool" where
  \<comment> \<open>\<^verbatim>\<open>str.isspace\<close> on one code point below 256\<close>
  "is_space c =
     (let n = (of_char c :: nat)
      in (9 \<le> n \<and> n \<le> 13) \<or> (28 \<le> n \<and> n \<le> 32) \<or> n = 133 \<or> n = 160)"

definition upper_chars :: string where
  "upper_chars = ''ABCDEFGHIJKLMNOPQRSTUVWXYZ'' @
     [CHR 0xC0, CHR 0xC1, CHR 0xC2, CHR 0xC3, CHR 0xC4, CHR 0xC5, CHR 0xC6, CHR 0xC7,
      CHR 0xC8, CHR 0xC9, CHR 0xCA, CHR 0xCB, CHR 0xCC, CHR 0xCD, CHR 0xCE, CHR 0xCF,
      CHR 0xD0, CHR 0xD1, CHR 0xD2, CHR 0xD3, CHR 0xD4, CHR 0xD5, CHR 0xD6,
      CHR 0xD8, CHR 0xD9, CHR 0xDA, CHR 0xDB, CHR 0xDC, CHR 0xDD, CHR 0xDE]"

definition lower_chars :: string where
  "lower_chars = ''abcdefghijklmnopqrstuvwxyz'' @
     [CHR 0xE0, CHR 0xE1, CHR 0xE2, CHR 0xE3, CHR 0xE4, CHR 0xE5, CHR 0xE6, CHR 0xE7,
      CHR 0xE8, CHR 0xE9, CHR 0xEA, CHR 0xEB, CHR 0xEC, CHR 0xED, CHR 0xEE, CHR 0xEF,
      CHR 0xF0, CHR 0xF1, CHR 0xF2, CHR 0xF3, CHR 0xF4, CHR 0xF5, CHR 0xF6,
      CHR 0xF8, CHR 0xF9, CHR 0xFA, CHR 0xFB, CHR 0xFC, CHR 0xFD, CHR 0xFE]"

definition lower_char :: "char \<Rightarrow> char" where
  "lower_char c = (case map_of (zip upper_chars lower_chars) c of None \<Rightarrow> c | Some d \<Rightarrow> d)"

definition str_lower :: "string \<Rightarrow> string" where
  \<comment> \<open>\<^verbatim>\<open>s.lower()\<close>\<close>
  "str_lower s = map lower_char s"

definition str_rstrip :: "string \<Rightarrow> string" where
  \<comment> \<open>\<^verbatim>\<open>s.rstrip()\<close>\<close>
  "str_rstrip s = rev (dropWhile is_space (rev s))"

definition str_strip :: "string \<Rightarrow> string" where
  \<comment> \<open>\<^verbatim>\<open>s.strip()\<close>\<close>
  "str_strip s = str_rstrip (dropWhile is_space s)"

function split_from :: "string \<Rightarrow> string \<Rightarrow> string \<Rightarrow> string list" where
  "split_from sep acc [] = [rev acc]"
| "split_from sep acc (c # cs) =
     (if sep \<noteq> [] \<and> prefix sep (c # cs)
      then rev acc # split_from sep [] (drop (length sep) (c # cs))
      else split_from sep (c # acc) cs)"
  by pat_completeness auto
termination
  by (relation "measure (\<lambda>(sep, acc, s). length s)") (auto simp: Suc_le_eq)

definition str_split :: "string \<Rightarrow> string \<Rightarrow> string list" where
  \<comment> \<open>\<^verbatim>\<open>s.split(sep)\<close> for a non-empty separator: the pieces between the
      non-overlapping occurrences of \<open>sep\<close>, found from the left; never an empty list\<close>
  "str_split sep s = split_from sep [] s"

fun str_join :: "string \<Rightarrow> string list \<Rightarrow> string" where
  \<comment> \<open>\<^verbatim>\<open>sep.join(xs)\<close>\<close>
  "str_join sep [] = []"
| "str_join sep [x] = x"
| "str_join sep (x # y # ys) = x @ sep @ str_join sep (y # ys)"

function str_replace :: "string \<Rightarrow> string \<Rightarrow> string \<Rightarrow> string" where
  \<comment> \<open>\<^verbatim>\<open>s.replace(old, new)\<close> for a non-empty \<open>old\<close>\<close>
  "str_replace old new [] = []"
| "str_replace old new (c # cs) =
     (if old \<noteq> [] \<and> prefix old (c # cs)
      then new @ str_replace old new (drop (length old) (c # cs))
      else c # str_replace old new cs)"
  by pat_completeness auto
termination
  by (relation "measure (\<lambda>(old, new, s). length s)") (auto simp: Suc_le_eq)

fun str_contains :: "string \<Rightarrow> string \<Rightarrow> bool" where
  \<comment> \<open>\<^verbatim>\<open>sub in s\<close>\<close>
  "str_contains sub [] = (sub = [])"
| "str_contains sub (c # cs) = (prefix sub (c # cs) \<or> str_contains sub cs)"

fun find_after :: "string \<Rightarrow> string \<Rightarrow> string option" where
  \<comment> \<open>what follows the first occurrence of \<open>pat\<close> in the string, if there is one\<close>
  "find_after pat [] = (if pat = [] then Some [] else None)"
| "find_after pat (c # cs) =
     (if prefix pat (c # cs) then Some (drop (length pat) (c # cs)) else find_after pat cs)"

function re_sub_span :: "string \<Rightarrow> string \<Rightarrow> string \<Rightarrow> string" where
  \<comment> \<open>\<^verbatim>\<open>re.sub(OPEN + r"(.|\s|\n)*?" + CLOSE, "", s)\<close> for literal delimiters: every
      span from an opening delimiter to the nearest closing one after it is removed, from
      the left; an opening delimiter that is never closed stays\<close>
  "re_sub_span opn cls [] = []"
| "re_sub_span opn cls (c # cs) =
     (if opn \<noteq> [] \<and> prefix opn (c # cs)
      then (case find_after cls (drop (length opn) (c # cs)) of
              Some rest \<Rightarrow> re_sub_span opn cls rest
            | None \<Rightarrow> c # re_sub_span opn cls cs)
      else c # re_sub_span opn cls cs)"
  by pat_completeness auto
termination
proof (relation "measure (\<lambda>(opn, cls, s). length s)")
  fix opn cls :: string and c :: char and cs rest :: string
  assume nonempty: "opn \<noteq> [] \<and> prefix opn (c # cs)"
    and found: "find_after cls (drop (length opn) (c # cs)) = Some rest"
  have shorter: "find_after p s = Some r \<Longrightarrow> length r \<le> length s" for p s r
    by (induction s arbitrary: r) (auto split: if_splits)
  from nonempty have "length (drop (length opn) (c # cs)) < length (c # cs)"
    by (cases opn) auto
  with shorter [OF found]
  show "((opn, cls, rest), (opn, cls, c # cs)) \<in> measure (\<lambda>(opn, cls, s). length s)"
    by simp
qed auto


section \<open>Errors\<close>

text \<open>
  Every exception that leaves \<^verbatim>\<open>read\<close> is a value of this type. \<open>Unmodelled\<close> marks
  the few inputs of a library function that lie outside the fragment written out here
  (a replacement field with a conversion or a format specification, a \<^verbatim>\<open>\u\<close> escape
  in a JSON string); no theorem below rests on what happens there.
\<close>

datatype error =
    ConnectionError | FileNotFoundError | IsADirectoryError | OSError
  | ValueError | IndexError | KeyError | TypeError | AttributeError
  | JSONDecodeError | RecursionError | ClientError | URLError | Unmodelled

fun bind_err :: "error + 'a \<Rightarrow> ('a \<Rightarrow> error + 'b) \<Rightarrow> error + 'b" where
  "bind_err (Inl e) f = Inl e"
| "bind_err (Inr x) f = f x"

section \<open>\<^verbatim>\<open>str.format\<close> and \<^verbatim>\<open>float\<close>\<close>

definition is_digit :: "char \<Rightarrow> bool" where
  "is_digit c = (c \<in> set ''0123456789'')"

definition digit_val :: "char \<Rightarrow> nat" where
  "digit_val c = of_char c - 48"

definition digits_val :: "string \<Rightarrow> nat" where
  "digits_val ds = foldl (\<lambda>a c. 10 * a + digit_val c) 0 ds"

function str_format :: "(string \<times> string) list \<Rightarrow> string \<Rightarrow> error + string" where
  \<comment> \<open>\<^verbatim>\<open>s.format(**kwargs)\<close>, the keyword values given by their \<^verbatim>\<open>str()\<close>: doubled braces
      are literal braces, \<^verbatim>\<open>{name}\<close> is replaced by the value of \<open>name\<close> (KeyError when it
      is missing), an empty or numeric field asks for a positional argument, of which there
      is none (IndexError), an unmatched brace is a ValueError\<close>
  "str_format kw [] = Inr []"
| "str_format kw (c # cs) =
     (if c = CHR ''{'' then
        (if cs \<noteq> [] \<and> hd cs = CHR ''{''
         then bind_err (str_format kw (tl cs)) (\<lambda>r. Inr (CHR ''{'' # r))
         else
           (let name = takeWhile (\<lambda>d. d \<noteq> CHR ''}'') cs;
                rest = dropWhile (\<lambda>d. d \<noteq> CHR ''}'') cs
            in if rest = [] then Inl ValueError
               else if \<exists>d \<in> set name. d \<in> set ''{!:.['' then Inl Unmodelled
               else if list_all is_digit name then Inl IndexError
               else (case map_of kw name of
                       None \<Rightarrow> Inl KeyError
                     | Some v \<Rightarrow> bind_err (str_format kw (tl rest)) (\<lambda>r. Inr (v @ r)))))
      else if c = CHR ''}'' then
        (if cs \<noteq> [] \<and> hd cs = CHR ''}''
         then bind_err (str_format kw (tl cs)) (\<lambda>r. Inr (CHR ''}'' # r))
         else Inl ValueError)
      else bind_err (str_format kw cs) (\<lambda>r. Inr (c # r)))"
  by pat_completeness auto
termination
proof (relation "measure (\<lambda>(kw, s). length s)")
  fix kw :: "(string \<times> string) list" and c :: char and cs name rest :: string
  assume "rest = dropWhile (\<lambda>d. d \<noteq> CHR ''}'') cs"
  then have "length rest \<le> length cs"
    by (simp add: length_dropWhile_le)
  then show "((kw, tl rest), (kw, c # cs)) \<in> measure (\<lambda>(kw, s). length s)"
    by simp
qed auto

fun strip_underscores :: "char \<Rightarrow> string \<Rightarrow> string option" where
  \<comment> \<open>the digit-group underscores of a numeric literal: each must stand between two
      digits; \<open>prev\<close> is the character before\<close>
  "strip_underscores prev [] = (if prev = CHR ''_'' then None else Some [])"
| "strip_underscores prev (c # cs) =
     (if c = CHR ''_''
      then (if is_digit prev then strip_underscores c cs else None)
      else if prev = CHR ''_'' \<and> \<not> is_digit c then None
      else map_option ((#) c) (strip_underscores c cs))"

definition split_sign :: "string \<Rightarrow> bool \<times> string" where
  "split_sign t =
     (case t of
        [] \<Rightarrow> (False, [])
      | c # r \<Rightarrow> if c = CHR ''-'' then (True, r) else if c = CHR ''+'' then (False, r)
                 else (False, t))"

definition split_fraction :: "string \<Rightarrow> string \<times> string" where
  "split_fraction r =
     (case r of
        [] \<Rightarrow> ([], [])
      | c # r' \<Rightarrow> if c = CHR ''.'' then (takeWhile is_digit r', dropWhile is_digit r')
                  else ([], r))"

text \<open>
  A Python float is a double: a finite value, which is a real number, or an infinity.
  \<^verbatim>\<open>float(s)\<close> gives the double nearest to the decimal that \<open>s\<close> denotes, ties going to
  the even mantissa, and an infinity where the decimal lies beyond the largest double.
\<close>

datatype pyfloat = Finite real | PosInf | NegInf

definition float_space :: "char \<Rightarrow> bool" where
  \<comment> \<open>the whitespace \<^verbatim>\<open>float\<close> drops around a numeral: the ASCII \<^verbatim>\<open>isspace\<close> characters
      and the two other spaces below 256 (U+001C to U+001F are not among them)\<close>
  "float_space c =
     (let n = (of_char c :: nat) in (9 \<le> n \<and> n \<le> 13) \<or> n = 32 \<or> n = 133 \<or> n = 160)"

function bit_length :: "int \<Rightarrow> nat" where
  \<comment> \<open>\<^verbatim>\<open>int.bit_length\<close> of a number that is not negative\<close>
  "bit_length n = (if n \<le> 0 then 0 else Suc (bit_length (n div 2)))"
  by pat_completeness auto
termination
  by (relation "measure nat") auto

declare bit_length.simps [simp del]

definition round_half_even :: "int \<Rightarrow> int \<Rightarrow> int" where
  \<comment> \<open>the integer nearest to \<open>a / b\<close>, the even one of two equally near\<close>
  "round_half_even a b =
     (let q = a div b; r = a mod b
      in if 2 * r < b then q else if b < 2 * r then q + 1 else if even q then q else q + 1)"

definition double_of_ratio :: "int \<Rightarrow> int \<Rightarrow> pyfloat" where
  \<comment> \<open>the double nearest to \<open>n / d\<close> for \<open>0 \<le> n\<close> and \<open>0 < d\<close>: 53 bits of mantissa at
      the exponent \<open>e\<close> of the value (\<open>2 ^ e \<le> n / d < 2 ^ (e + 1)\<close>), the unit of the
      mantissa not below that of the subnormal numbers, overflow to infinity\<close>
  "double_of_ratio n d =
     (if n = 0 then Finite 0
      else
        (let e0 = int (bit_length n) - int (bit_length d);
             e = (if d * 2 ^ nat e0 \<le> n * 2 ^ nat (- e0) then e0 else e0 - 1);
             s = max (e - 52) (- 1074)
         in if 0 \<le> s
            then (let m = round_half_even n (d * 2 ^ nat s)
                  in if 2 ^ 1024 \<le> m * 2 ^ nat s then PosInf
                     else Finite (of_int (m * 2 ^ nat s)))
            else Finite (of_int (round_half_even (n * 2 ^ nat (- s)) d) / 2 ^ nat (- s))))"

definition decimal_val :: "string \<Rightarrow> int" where
  "decimal_val ds = foldl (\<lambda>n c. 10 * n + int (digit_val c)) 0 ds"

definition float_neg :: "pyfloat \<Rightarrow> pyfloat" where
  "float_neg x = (case x of Finite r \<Rightarrow> Finite (- r) | PosInf \<Rightarrow> NegInf | NegInf \<Rightarrow> PosInf)"

definition float_lt :: "real \<Rightarrow> pyfloat \<Rightarrow> bool" where
  \<comment> \<open>\<^verbatim>\<open>x < y\<close> for a finite \<open>x\<close>\<close>
  "float_lt x y = (case y of Finite r \<Rightarrow> x < r | PosInf \<Rightarrow> True | NegInf \<Rightarrow> False)"

definition py_float :: "string \<Rightarrow> error + pyfloat" where
  \<comment> \<open>\<^verbatim>\<open>float(s)\<close> for a string without letters (the caller has removed \<^verbatim>\<open>a-z\<close> from a
      lowercased string, so the exponent, \<^verbatim>\<open>inf\<close> and \<^verbatim>\<open>nan\<close> forms cannot reach it):
      surrounding whitespace is dropped, then an optional sign, digits and at most one
      decimal point, with at least one digit\<close>
  "py_float s =
     (case strip_underscores (CHR 0x00)
             (rev (dropWhile float_space (rev (dropWhile float_space s)))) of
        None \<Rightarrow> Inl ValueError
      | Some t \<Rightarrow>
          (let (neg, u) = split_sign t;
               ip = takeWhile is_digit u;
               (fp, tail) = split_fraction (dropWhile is_digit u)
           in if tail \<noteq> [] \<or> (ip = [] \<and> fp = []) then Inl ValueError
              else Inr ((if neg then float_neg else (\<lambda>x. x))
                          (double_of_ratio (decimal_val (ip @ fp)) (10 ^ length fp)))))"

section \<open>\<^verbatim>\<open>json.loads\<close>\<close>

text \<open>
  The decoder of Python's \<^verbatim>\<open>json\<close> module, written after \<^verbatim>\<open>json/decoder.py\<close> and
  \<^verbatim>\<open>json/scanner.py\<close>: a recursive descent over the text. An object is the list of its
  members in insertion order, a repeated key keeping its first place and its last value,
  as \<^verbatim>\<open>dict(pairs)\<close> does. A number with a fraction or an exponent is the exact decimal
  (Python rounds it to a double). The nesting depth is bounded by the fuel, which
  \<open>json_loads\<close> sets beyond what any text of that length needs.
\<close>

datatype json =
    JNull | JBool bool | JInt int | JFloat real | JNaN | JInfinity bool
  | JStr string | JArr "json list" | JObj "(string \<times> json) list"

definition json_ws :: "char \<Rightarrow> bool" where
  "json_ws c = (c \<in> set [CHR '' '', CHR 0x09, CHR 0x0A, CHR 0x0D])"

definition skip_ws :: "string \<Rightarrow> string" where
  "skip_ws s = dropWhile json_ws s"

definition json_escapes :: "(char \<times> char) list" where
  "json_escapes =
     [(CHR 0x22, CHR 0x22), (CHR 0x5C, CHR 0x5C), (CHR ''/'', CHR ''/''),
      (CHR ''b'', CHR 0x08), (CHR ''f'', CHR 0x0C), (CHR ''n'', CHR 0x0A),
      (CHR ''r'', CHR 0x0D), (CHR ''t'', CHR 0x09)]"

fun scanstring :: "string \<Rightarrow> error + (string \<times> string)" where
  \<comment> \<open>the text after an opening quote: the decoded string and what follows its closing
      quote\<close>
  "scanstring [] = Inl JSONDecodeError"
| "scanstring (c # cs) =
     (if c = CHR 0x22 then Inr ([], cs)
      else if c = CHR 0x5C then
        (case cs of
           [] \<Rightarrow> Inl JSONDecodeError
         | e # r \<Rightarrow>
             (if e = CHR ''u'' then Inl Unmodelled
              else (case map_of json_escapes e of
                      None \<Rightarrow> Inl JSONDecodeError
                    | Some d \<Rightarrow> bind_err (scanstring r) (\<lambda>(t, rest). Inr (d # t, rest)))))
      else if (of_char c :: nat) < 32 then Inl JSONDecodeError
      else bind_err (scanstring cs) (\<lambda>(t, rest). Inr (c # t, rest)))"

definition scan_exponent :: "string \<Rightarrow> (int \<times> string) option" where
  "scan_exponent s =
     (case s of
        [] \<Rightarrow> None
      | c # r \<Rightarrow>
          if c = CHR ''e'' \<or> c = CHR ''E'' then
            (let (neg, u) = split_sign r; ds = takeWhile is_digit u
             in if ds = [] then None
                else Some ((if neg then - 1 else 1) * int (digits_val ds), dropWhile is_digit u))
          else None)"

definition scan_number :: "string \<Rightarrow> (json \<times> string) option" where
  \<comment> \<open>\<^verbatim>\<open>(-?(?:0|[1-9]\d*))(\.\d+)?([eE][-+]?\d+)?\<close> at the start of the text\<close>
  "scan_number s =
     (let (neg, u) = (case s of [] \<Rightarrow> (False, []) | c # r \<Rightarrow> if c = CHR ''-'' then (True, r) else (False, s));
          ds = takeWhile is_digit u;
          ip = (if ds \<noteq> [] \<and> hd ds = CHR ''0'' then ''0'' else ds);
          r1 = drop (length ip) u;
          (fp, r2) = (case split_fraction r1 of (f, t) \<Rightarrow> if f = [] then ([], r1) else (f, t));
          sgn = (if neg then - 1 else 1)
      in if ip = [] then None
         else (case scan_exponent r2 of
                 None \<Rightarrow>
                   if fp = [] then Some (JInt (sgn * int (digits_val ip)), r2)
                   else Some (JFloat (real_of_int sgn *
                          (real (digits_val ip) + real (digits_val fp) / 10 ^ length fp)), r2)
               | Some (e, r3) \<Rightarrow>
                   Some (JFloat (real_of_int sgn *
                          (real (digits_val ip) + real (digits_val fp) / 10 ^ length fp) *
                          (if 0 \<le> e then 10 ^ nat e else 1 / 10 ^ nat (- e))), r3)))"

definition dict_of :: "(string \<times> json) list \<Rightarrow> (string \<times> json) list" where
  \<comment> \<open>\<^verbatim>\<open>dict(pairs)\<close>\<close>
  "dict_of ps = foldl (\<lambda>d (k, v). if k \<in> set (map fst d)
                                     then map (\<lambda>(k', v'). if k' = k then (k', v) else (k', v')) d
                                     else d @ [(k, v)]) [] ps"

definition scan_constant :: "string \<Rightarrow> (json \<times> string) option" where
  "scan_constant s =
     (if prefix ''null'' s then Some (JNull, drop 4 s)
      else if prefix ''true'' s then Some (JBool True, drop 4 s)
      else if prefix ''false'' s then Some (JBool False, drop 5 s)
      else if prefix ''NaN'' s then Some (JNaN, drop 3 s)
      else if prefix ''Infinity'' s then Some (JInfinity False, drop 8 s)
      else if prefix ''-Infinity'' s then Some (JInfinity True, drop 9 s)
      else None)"

fun scan_once :: "nat \<Rightarrow> string \<Rightarrow> error + (json \<times> string)"
  and JSONArray :: "nat \<Rightarrow> json list \<Rightarrow> string \<Rightarrow> error + (json \<times> string)"
  and JSONObject :: "nat \<Rightarrow> (string \<times> json) list \<Rightarrow> string \<Rightarrow> error + (json \<times> string)"
where
  "scan_once 0 s = Inl RecursionError"
| "scan_once (Suc n) s =
     (case s of
        [] \<Rightarrow> Inl JSONDecodeError
      | c # r \<Rightarrow>
          if c = CHR 0x22 then bind_err (scanstring r) (\<lambda>(t, rest). Inr (JStr t, rest))
          else if c = CHR ''{'' then
            (case skip_ws r of
               [] \<Rightarrow> Inl JSONDecodeError
             | d # k \<Rightarrow> if d = CHR ''}'' then Inr (JObj [], k)
                        else if d = CHR 0x22 then JSONObject n [] k
                        else Inl JSONDecodeError)
          else if c = CHR ''['' then
            (case skip_ws r of
               [] \<Rightarrow> Inl JSONDecodeError
             | d # k \<Rightarrow> if d = CHR '']'' then Inr (JArr [], k) else JSONArray n [] (d # k))
          else (case scan_constant s of
                  Some res \<Rightarrow> Inr res
                | None \<Rightarrow> (case scan_number s of
                             Some res \<Rightarrow> Inr res
                           | None \<Rightarrow> Inl JSONDecodeError)))"
| "JSONArray 0 vs s = Inl RecursionError"
| "JSONArray (Suc n) vs s =
     bind_err (scan_once n s) (\<lambda>(v, rest).
       (case skip_ws rest of
          [] \<Rightarrow> Inl JSONDecodeError
        | d # k \<Rightarrow> if d = CHR '']'' then Inr (JArr (vs @ [v]), k)
                   else if d = CHR '','' then JSONArray n (vs @ [v]) (skip_ws k)
                   else Inl JSONDecodeError))"
| "JSONObject 0 ps s = Inl RecursionError"
| "JSONObject (Suc n) ps s =
     bind_err (scanstring s) (\<lambda>(key, rest).
       (case skip_ws rest of
          [] \<Rightarrow> Inl JSONDecodeError
        | d # k \<Rightarrow>
            if d \<noteq> CHR '':'' then Inl JSONDecodeError
            else bind_err (scan_once n (skip_ws k)) (\<lambda>(v, rest').
              (case skip_ws rest' of
                 [] \<Rightarrow> Inl JSONDecodeError
               | d' # k' \<Rightarrow>
                   if d' = CHR ''}'' then Inr (JObj (dict_of (ps @ [(key, v)])), k')
                   else if d' = CHR '','' then
                     (case skip_ws k' of
                        [] \<Rightarrow> Inl JSONDecodeError
                      | q # k'' \<Rightarrow> if q = CHR 0x22 then JSONObject n (ps @ [(key, v)]) k''
                                    else Inl JSONDecodeError)
                   else Inl JSONDecodeError))))"

definition json_loads :: "string \<Rightarrow> error + json" where
  \<comment> \<open>\<^verbatim>\<open>json.loads(s)\<close>: one value, whitespace around it, nothing else\<close>
  "json_loads s =
     bind_err (scan_once (2 * length s + 2) (skip_ws s)) (\<lambda>(v, rest).
       if skip_ws rest = [] then Inr v else Inl JSONDecodeError)"


section \<open>Arguments, collaborators and the world\<close>

text \<open>
  The arguments of \<^verbatim>\<open>read\<close>. \<^verbatim>\<open>cache\<close> is a string or a boolean; \<^verbatim>\<open>engine\<close> is a
  string or a callable (named by a number); the keyword arguments are given with the
  \<^verbatim>\<open>str()\<close> of their values. \<^verbatim>\<open>credentials\<close> and \<^verbatim>\<open>profile_name\<close> only decide how the
  S3 session comes about, which the environment records; \<^verbatim>\<open>verbose\<close> only prints
  progress and is left out.
\<close>

datatype cache_arg = CBool bool | CStr string

datatype engine_arg = EStr string | ECallable nat

record read_args =
  path :: string
  extension :: "string option"
  parse :: bool
  remove_comments :: bool
  sep :: string
  sheet_name :: string
  engine :: engine_arg
  cache :: cache_arg
  cache_name :: "string option"
  kwargs :: "(string \<times> string) list"

text \<open>
  What \<^verbatim>\<open>read\<close> takes from outside and does not change: how
  \<^verbatim>\<open>boto3.session.Session(profile_name=...)\<close> ends, the error \<^verbatim>\<open>_get_config\<close> raises
  (if any), the buckets with their objects in listing order, the SHA-224 hex digest, the
  cache root \<^verbatim>\<open>_pycof_folders('data')\<close>, \<^verbatim>\<open>file_age(path, format)\<close> from
  \<^verbatim>\<open>pycof/misc.py\<close> (a finite age), the order in which the operating system lists
  the entries of a directory (entries of lower rank first) and the pages \<^verbatim>\<open>urlopen\<close>
  can fetch. \<^verbatim>\<open>_get_config\<close>, \<^verbatim>\<open>_pycof_folders\<close> and \<^verbatim>\<open>file_age\<close> are not in the
  source file at hand and stay parameters.
\<close>

datatype session_outcome = SessionOk | ProfileNotFound | SessionFileNotFound

record env =
  session :: session_outcome
  config_error :: "error option"
  buckets :: "(string \<times> (string \<times> string) list) list"
  sha224_hex :: "string \<Rightarrow> string"
  data_path :: string
  file_age :: "string \<Rightarrow> string \<Rightarrow> error + real"
  listdir_rank :: "string \<Rightarrow> nat"
  http :: "(string \<times> string) list"

text \<open>
  What \<^verbatim>\<open>read\<close> can change: the directories below the cache root, each under its path
  relative to the root and with its files (name and content); the other local files;
  what has been printed, one entry for each call of \<^verbatim>\<open>print\<close>; and the requests made
  to the object store. A cache directory holds files only (\<^verbatim>\<open>read\<close> never creates a
  directory inside one). \<^verbatim>\<open>os.listdir\<close> of the cache root gives the directories whose
  path is a single name; one that \<^verbatim>\<open>os.makedirs\<close> created for a name with a slash is
  not among them.
\<close>

datatype s3_call =
    GetObject string string
  | ListObjects string string
  | DownloadFile string string string

record world =
  cache_dirs :: "(string \<times> (string \<times> string) list) list"
  files :: "(string \<times> string) list"
  stdout :: "string list"
  s3_calls :: "s3_call list"

text \<open>
  The variable \<^verbatim>\<open>path\<close> is a string or a \<^verbatim>\<open>BytesIO\<close> buffer; the variable \<^verbatim>\<open>orgn\<close> is
  one of three strings. The tabular decoders are external libraries: a table is
  represented by the call that produces it. \<open>Empty\<close> is the initial \<^verbatim>\<open>data = []\<close>.
\<close>

datatype source = Path string | Buffer string

datatype origin = S3 | HTTP | Other

datatype table_call =
    ReadCsv source string "(string \<times> string) list"
  | ReadExcel source string engine_arg "(string \<times> string) list"
  | ReadJson source "(string \<times> string) list"
  | ReadParquet source
  | ParquetDataset source "(string \<times> string) list"
  | EngineCall nat source "(string \<times> string) list"
  | ReadFeather source "(string \<times> string) list"

datatype "value" = Empty | Text string | Json json | Table table_call

section \<open>Files\<close>

definition path_join :: "string \<Rightarrow> string \<Rightarrow> string" where
  \<comment> \<open>\<^verbatim>\<open>os.path.join(a, b)\<close>\<close>
  "path_join a b =
     (if b \<noteq> [] \<and> hd b = CHR ''/'' then b
      else if a = [] \<or> last a = CHR ''/'' then a @ b
      else a @ ''/'' @ b)"

fun universal_newlines :: "string \<Rightarrow> string" where
  \<comment> \<open>text mode: \<^verbatim>\<open>\r\n\<close> and \<^verbatim>\<open>\r\<close> are read as \<^verbatim>\<open>\n\<close>\<close>
  "universal_newlines [] = []"
| "universal_newlines [c] = (if c = CHR 0x0D then [CHR 0x0A] else [c])"
| "universal_newlines (c # d # cs) =
     (if c = CHR 0x0D \<and> d = CHR 0x0A then CHR 0x0A # universal_newlines cs
      else if c = CHR 0x0D then CHR 0x0A # universal_newlines (d # cs)
      else c # universal_newlines (d # cs))"

definition is_directory :: "env \<Rightarrow> world \<Rightarrow> string \<Rightarrow> bool" where
  "is_directory env w p =
     (p = data_path env \<or> p \<in> set (map (\<lambda>(n, fs). path_join (data_path env) n) (cache_dirs w)))"

definition open_read :: "env \<Rightarrow> world \<Rightarrow> source \<Rightarrow> error + string" where
  \<comment> \<open>\<^verbatim>\<open>with open(path) as f: f.read()\<close>\<close>
  "open_read env w src =
     (case src of
        Buffer b \<Rightarrow> Inl TypeError
      | Path p \<Rightarrow>
          if is_directory env w p then Inl IsADirectoryError
          else (case map_of (files w) p of
                  None \<Rightarrow> Inl FileNotFoundError
                | Some c \<Rightarrow> Inr (universal_newlines c)))"

definition read_text :: "env \<Rightarrow> world \<Rightarrow> source \<Rightarrow> error + string" where
  \<comment> \<open>\<^verbatim>\<open>path.read().decode()\<close> for a buffer, \<^verbatim>\<open>open(path)\<close> and \<^verbatim>\<open>f.read()\<close> otherwise\<close>
  "read_text env w src = (case src of Buffer b \<Rightarrow> Inr b | Path p \<Rightarrow> open_read env w src)"

fun file_lines_from :: "string \<Rightarrow> string \<Rightarrow> string list" where
  "file_lines_from acc [] = (if acc = [] then [] else [rev acc])"
| "file_lines_from acc (c # cs) =
     (if c = CHR 0x0A then rev (c # acc) # file_lines_from [] cs
      else file_lines_from (c # acc) cs)"

definition file_lines :: "string \<Rightarrow> string list" where
  \<comment> \<open>\<^verbatim>\<open>for line in f\<close>: the lines with their terminators\<close>
  "file_lines s = file_lines_from [] s"


section \<open>The object store and the cache (lines 84 to 161 of \<^verbatim>\<open>data.py\<close>)\<close>

definition authenticate :: "env \<Rightarrow> error + unit" where
  \<comment> \<open>the \<^verbatim>\<open>try\<close> of lines 85 to 97: an error of \<^verbatim>\<open>_get_config\<close> inside the
      \<^verbatim>\<open>except ProfileNotFound\<close> handler is not caught by the clause beside it\<close>
  "authenticate env =
     (case session env of
        SessionOk \<Rightarrow> Inr ()
      | ProfileNotFound \<Rightarrow> (case config_error env of None \<Rightarrow> Inr () | Some e \<Rightarrow> Inl e)
      | SessionFileNotFound \<Rightarrow> Inl ConnectionError)"

definition streamable :: "string list" where
  "streamable = [''csv'', ''txt'', ''parq'', ''parquet'', ''fea'', ''feather'', ''html'',
                 ''json'', ''js'', ''py'', ''sh'', ''xls'', ''xlsx'']"

definition data_extensions :: "string list" where
  "data_extensions = [''.parquet'', ''.parq'', ''.feather'', ''.fea'', ''.csv'', ''.json'', ''.txt'']"

definition az :: string where
  "az = ''abcdefghijklmnopqrstuvwxyz''"

definition cache_token :: "cache_arg \<Rightarrow> string" where
  \<comment> \<open>\<^verbatim>\<open>str(0. if cache is False else cache)\<close>\<close>
  "cache_token c = (case c of CBool b \<Rightarrow> if b then ''True'' else ''0.0'' | CStr t \<Rightarrow> t)"

definition str_c_time :: "cache_arg \<Rightarrow> string" where
  "str_c_time c = str_replace '' '' [] (str_lower (cache_token c))"

definition c_time :: "cache_arg \<Rightarrow> error + pyfloat" where
  \<comment> \<open>\<^verbatim>\<open>float(''.join(re.findall('[^a-z]', str_c_time)))\<close>\<close>
  "c_time c = py_float (filter (\<lambda>x. x \<notin> set az) (str_c_time c))"

definition age_fmt :: "cache_arg \<Rightarrow> string" where
  \<comment> \<open>\<^verbatim>\<open>''.join(re.findall('[a-z]', str_c_time))\<close>\<close>
  "age_fmt c = filter (\<lambda>x. x \<in> set az) (str_c_time c)"

definition file_name :: "env \<Rightarrow> read_args \<Rightarrow> string" where
  "file_name env a =
     (case cache_name a of
        Some n \<Rightarrow> if n \<noteq> [] then n else str_replace ''-'' ''m'' (sha224_hex env (path a))
      | None \<Rightarrow> str_replace ''-'' ''m'' (sha224_hex env (path a)))"

definition in_dir :: "string \<Rightarrow> ((string \<times> string) list \<Rightarrow> (string \<times> string) list) \<Rightarrow> (string \<times> (string \<times> string) list) list \<Rightarrow> (string \<times> (string \<times> string) list) list" where
  \<comment> \<open>the cache directories after \<open>f\<close> has changed the files of the directory \<open>dir\<close>\<close>
  "in_dir dir f ds = map (\<lambda>(n, fs). if n = dir then (n, f fs) else (n, fs)) ds"

definition write_file :: "(string \<times> string) list \<Rightarrow> string \<Rightarrow> string \<Rightarrow> (string \<times> string) list" where
  "write_file dir name body =
     (if name \<in> set (map fst dir)
      then map (\<lambda>(n, b). if n = name then (n, body) else (n, b)) dir
      else dir @ [(name, body)])"

definition download_file :: "env \<Rightarrow> string \<Rightarrow> string \<Rightarrow> string \<Rightarrow> string \<Rightarrow> world \<Rightarrow> (error + unit) \<times> world" where
  \<comment> \<open>\<^verbatim>\<open>s3bucket.download_file(key, os.path.join(path, key.split('/')[-1]))\<close> into the cache
      subdirectory \<open>dir\<close>; a key that ends in a slash names the directory itself, and the
      transfer cannot replace a directory by a file\<close>
  "download_file env bucket dir key body w =
     (let name = last (str_split ''/'' key);
          dest = path_join (path_join (data_path env) dir) name;
          w' = w\<lparr>s3_calls := s3_calls w @ [DownloadFile bucket key dest]\<rparr>
      in if name = [] then (Inl OSError, w')
         else (Inr (), w'\<lparr>cache_dirs :=
                 in_dir dir (\<lambda>fs. write_file fs name body) (cache_dirs w')\<rparr>))"

fun refresh_loop :: "env \<Rightarrow> string \<Rightarrow> string \<Rightarrow> string \<Rightarrow> (string \<times> string) list \<Rightarrow> string \<Rightarrow> world \<Rightarrow> (error + string) \<times> world" where
  \<comment> \<open>the loop of lines 146 to 151; the result is \<^verbatim>\<open>ext\<close>\<close>
  "refresh_loop env bucket folder_path dir [] ext w = (Inr ext, w)"
| "refresh_loop env bucket folder_path dir ((key, body) # objs) ext w =
     (if key = folder_path \<or> \<not> (\<exists>e \<in> set data_extensions. str_contains e key)
      then refresh_loop env bucket folder_path dir objs ext w
      else (case download_file env bucket dir key body w of
              (Inl e, w') \<Rightarrow> (Inl e, w')
            | (Inr u, w') \<Rightarrow>
                refresh_loop env bucket folder_path dir objs (last (str_split ''.'' key)) w'))"

fun first_loop :: "env \<Rightarrow> string \<Rightarrow> string \<Rightarrow> string \<Rightarrow> (string \<times> string) list \<Rightarrow> string \<Rightarrow> world \<Rightarrow> (error + string) \<times> world" where
  \<comment> \<open>the loop of lines 157 to 161\<close>
  "first_loop env bucket folder_path dir [] ext w = (Inr ext, w)"
| "first_loop env bucket folder_path dir ((key, body) # objs) ext w =
     (if key = folder_path
      then first_loop env bucket folder_path dir objs ext w
      else (case download_file env bucket dir key body w of
              (Inl e, w') \<Rightarrow> (Inl e, w')
            | (Inr u, w') \<Rightarrow>
                first_loop env bucket folder_path dir objs (last (str_split ''.'' key)) w'))"

definition list_objects :: "env \<Rightarrow> string \<Rightarrow> string \<Rightarrow> world \<Rightarrow> (error + (string \<times> string) list) \<times> world" where
  \<comment> \<open>\<^verbatim>\<open>s3bucket.objects.filter(Prefix=folder_path)\<close>, once it is iterated\<close>
  "list_objects env bucket folder_path w =
     (let w' = w\<lparr>s3_calls := s3_calls w @ [ListObjects bucket folder_path]\<rparr>
      in case map_of (buckets env) bucket of
           None \<Rightarrow> (Inl ClientError, w')
         | Some objs \<Rightarrow> (Inr (filter (\<lambda>(key, body). prefix folder_path key) objs), w'))"

definition get_object :: "env \<Rightarrow> string \<Rightarrow> string \<Rightarrow> world \<Rightarrow> (error + string) \<times> world" where
  \<comment> \<open>\<^verbatim>\<open>s3.get_object(Bucket=bucket, Key=folder_path)['Body'].read()\<close>\<close>
  "get_object env bucket key w =
     (let w' = w\<lparr>s3_calls := s3_calls w @ [GetObject bucket key]\<rparr>
      in case map_of (buckets env) bucket of
           None \<Rightarrow> (Inl ClientError, w')
         | Some objs \<Rightarrow> (case map_of objs key of
                          None \<Rightarrow> (Inl ClientError, w')
                        | Some body \<Rightarrow> (Inr body, w')))"

definition in_listdir :: "world \<Rightarrow> string \<Rightarrow> bool" where
  \<comment> \<open>\<^verbatim>\<open>file_name in os.listdir(data_path)\<close>: an entry of a directory is a single name\<close>
  "in_listdir w dir =
     (dir \<noteq> [] \<and> CHR ''/'' \<notin> set dir \<and> dir \<noteq> ''.'' \<and> dir \<noteq> ''..'' \<and>
      dir \<in> set (map fst (cache_dirs w)))"

definition dir_files :: "world \<Rightarrow> string \<Rightarrow> (string \<times> string) list" where
  "dir_files w dir = (case map_of (cache_dirs w) dir of None \<Rightarrow> [] | Some fs \<Rightarrow> fs)"

definition os_listdir :: "env \<Rightarrow> (string \<times> string) list \<Rightarrow> string list" where
  \<comment> \<open>\<^verbatim>\<open>os.listdir(path)\<close>: the names of the files, in the order of the operating system\<close>
  "os_listdir env fs = sort_key (listdir_rank env) (map fst fs)"

definition makedirs :: "string \<Rightarrow> world \<Rightarrow> world" where
  \<comment> \<open>\<^verbatim>\<open>os.makedirs(path, exist_ok=True)\<close>\<close>
  "makedirs dir w =
     (if dir \<in> set (map fst (cache_dirs w)) then w
      else w\<lparr>cache_dirs := cache_dirs w @ [(dir, [])]\<rparr>)"

definition cache_fetch :: "env \<Rightarrow> read_args \<Rightarrow> string \<Rightarrow> string \<Rightarrow> string \<Rightarrow> world \<Rightarrow> (error + source \<times> string) \<times> world" where
  \<comment> \<open>lines 108 to 161: the \<^verbatim>\<open>else\<close> branch, which checks the cache and downloads\<close>
  "cache_fetch env a ext bucket folder_path w =
     (case c_time (cache a) of
        Inl e \<Rightarrow> (Inl e, w)
      | Inr ct \<Rightarrow>
          (let dir = file_name env a;
               path' = path_join (data_path env) dir
           in if in_listdir w dir then
                (case file_age env path' (age_fmt (cache a)) of
                   Inl e \<Rightarrow> (Inl e, w)
                 | Inr age \<Rightarrow>
                     if float_lt age ct then
                       (case os_listdir env (dir_files w dir) of
                          [] \<Rightarrow> (Inl IndexError, w)
                        | n # ns \<Rightarrow> (Inr (Path path', last (str_split ''.'' n)), w))
                     else
                       (let w1 = w\<lparr>cache_dirs := in_dir dir (\<lambda>fs. []) (cache_dirs w)\<rparr>
                        in case list_objects env bucket folder_path w1 of
                             (Inl e, w2) \<Rightarrow> (Inl e, w2)
                           | (Inr objs, w2) \<Rightarrow>
                               (case refresh_loop env bucket folder_path dir objs ext w2 of
                                  (Inl e, w3) \<Rightarrow> (Inl e, w3)
                                | (Inr ext', w3) \<Rightarrow> (Inr (Path path', ext'), w3))))
              else
                (let w1 = makedirs dir w
                 in case list_objects env bucket folder_path w1 of
                      (Inl e, w2) \<Rightarrow> (Inl e, w2)
                    | (Inr objs, w2) \<Rightarrow>
                        (case first_loop env bucket folder_path dir objs ext w2 of
                           (Inl e, w3) \<Rightarrow> (Inl e, w3)
                         | (Inr ext', w3) \<Rightarrow> (Inr (Path path', ext'), w3)))))"

definition bucket_of :: "string \<Rightarrow> string" where
  \<comment> \<open>line 99: \<^verbatim>\<open>bucket = path.replace('s3://', '').split('/')[0]\<close>\<close>
  "bucket_of p = hd (str_split ''/'' (str_replace ''s3://'' [] p))"

definition folder_path_of :: "string \<Rightarrow> string" where
  \<comment> \<open>line 100: \<^verbatim>\<open>folder_path = '/'.join(path.replace('s3://', '').split('/')[1:])\<close>\<close>
  "folder_path_of p = str_join ''/'' (tl (str_split ''/'' (str_replace ''s3://'' [] p)))"

definition s3_fetch :: "env \<Rightarrow> read_args \<Rightarrow> string \<Rightarrow> world \<Rightarrow> (error + source \<times> string) \<times> world" where
  \<comment> \<open>lines 84 to 161: the new values of \<^verbatim>\<open>path\<close> and \<^verbatim>\<open>ext\<close>\<close>
  "s3_fetch env a ext w =
     (case authenticate env of
        Inl e \<Rightarrow> (Inl e, w)
      | Inr u \<Rightarrow>
          (let bucket = bucket_of (path a);
               folder_path = folder_path_of (path a)
           in if str_lower ext \<in> set streamable then
                (case get_object env bucket folder_path w of
                   (Inl e, w') \<Rightarrow> (Inl e, w')
                 | (Inr body, w') \<Rightarrow> (Inr (Buffer body, ext), w'))
              else cache_fetch env a ext bucket folder_path w))"


section \<open>Cleaning text and decoding (lines 163 to 305)\<close>

fun clean_loop :: "(string \<Rightarrow> error + string) \<Rightarrow> string list \<Rightarrow> string list \<Rightarrow> error + string list" where
  \<comment> \<open>\<^verbatim>\<open>for line in file.split('\n')\<close>: the line is stripped, \<open>f\<close> does the rest of the
      loop body, and a line that is not empty is appended to \<^verbatim>\<open>data\<close>\<close>
  "clean_loop f data [] = Inr data"
| "clean_loop f data (line # ls) =
     bind_err (f (str_strip line))
       (\<lambda>l. clean_loop f (if l \<noteq> [] then data @ [l] else data) ls)"

definition formatted :: "read_args \<Rightarrow> string \<Rightarrow> error + string" where
  \<comment> \<open>\<^verbatim>\<open>if parse: l_striped = l_striped.format(**kwargs)\<close>\<close>
  "formatted a l = (if parse a then str_format (kwargs a) l else Inr l)"

definition sql_line :: "read_args \<Rightarrow> string \<Rightarrow> error + string" where
  \<comment> \<open>lines 179 to 183; the result of \<^verbatim>\<open>re.sub\<close> in line 183 is dropped by the source\<close>
  "sql_line a l =
     bind_err (formatted a l)
       (\<lambda>l. Inr (if remove_comments a then hd (str_split ''--'' l) else l))"

definition html_line :: "read_args \<Rightarrow> string \<Rightarrow> error + string" where
  \<comment> \<open>lines 201 to 204\<close>
  "html_line a l =
     bind_err (formatted a l)
       (\<lambda>l. Inr (if remove_comments a then re_sub_span ''<!--'' ''-->'' l else l))"

definition py_line :: "read_args \<Rightarrow> string \<Rightarrow> error + string" where
  \<comment> \<open>lines 218 to 221\<close>
  "py_line a l =
     bind_err (formatted a l)
       (\<lambda>l. Inr (if remove_comments a then hd (str_split ''#'' l) else l))"

definition js_line :: "read_args \<Rightarrow> string \<Rightarrow> error + string" where
  \<comment> \<open>lines 234 to 238; the result of \<^verbatim>\<open>re.sub\<close> in line 238 is dropped by the source\<close>
  "js_line a l =
     bind_err (formatted a l)
       (\<lambda>l. Inr (if remove_comments a then hd (str_split ''//'' l) else l))"

definition jsonc_line :: "read_args \<Rightarrow> string \<Rightarrow> error + string" where
  \<comment> \<open>lines 257 to 260\<close>
  "jsonc_line a l =
     Inr (if remove_comments a
          then hd (str_split ''#'' (hd (str_split ''//'' (re_sub_span ''/*'' ''*/'' l))))
          else l)"

definition cleaned :: "(string \<Rightarrow> error + string) \<Rightarrow> string \<Rightarrow> error + string" where
  \<comment> \<open>the loop over the lines, then \<^verbatim>\<open>' '.join(data)\<close>\<close>
  "cleaned f file = bind_err (clean_loop f [] (str_split [CHR 0x0A] file)) (\<lambda>data. Inr (str_join '' '' data))"

definition url_scheme :: "string \<Rightarrow> string option" where
  \<comment> \<open>what stands before the first colon, when no slash comes before it\<close>
  "url_scheme p =
     (let pre = takeWhile (\<lambda>c. c \<noteq> CHR ''/'' \<and> c \<noteq> CHR '':'') p;
          rest = drop (length pre) p
      in if pre \<noteq> [] \<and> rest \<noteq> [] \<and> hd rest = CHR '':'' then Some pre else None)"

definition urlopen :: "env \<Rightarrow> source \<Rightarrow> error + string" where
  \<comment> \<open>\<^verbatim>\<open>urllib.request.urlopen(path).read().decode("utf-8")\<close>: a string without a scheme
      is a ValueError; an unknown scheme, a missing host and a page that cannot be
      fetched are URLErrors\<close>
  "urlopen env src =
     (case src of
        Buffer b \<Rightarrow> Inl TypeError
      | Path p \<Rightarrow>
          (case url_scheme p of
             None \<Rightarrow> Inl ValueError
           | Some sch \<Rightarrow>
               (let after = drop (length sch + 1) p;
                    host = takeWhile (\<lambda>c. c \<notin> set ''/?#'') (drop 2 after)
                in if str_lower sch \<in> set [''http'', ''https''] \<and> prefix ''//'' after \<and> host \<noteq> []
                   then (case map_of (http env) p of None \<Rightarrow> Inl URLError | Some page \<Rightarrow> Inr page)
                   else Inl URLError)))"

definition dispatch :: "env \<Rightarrow> read_args \<Rightarrow> origin \<Rightarrow> source \<Rightarrow> string \<Rightarrow> world \<Rightarrow> (error + value) \<times> world" where
  \<comment> \<open>the \<^verbatim>\<open>if\<close> / \<^verbatim>\<open>elif\<close> chain of lines 164 to 303 and the \<^verbatim>\<open>return data\<close>\<close>
  "dispatch env a orgn src ext w =
     (let x = str_lower ext in
      if x \<in> set [''csv'', ''txt''] then (Inr (Table (ReadCsv src (sep a) (kwargs a))), w)
      else if x \<in> set [''xls'', ''xlsx''] then
        (Inr (Table (ReadExcel src (sheet_name a)
                (if engine a = EStr ''auto'' then EStr ''openpyxl'' else engine a) (kwargs a))), w)
      else if x \<in> set [''sql''] then
        (bind_err (read_text env w src) (\<lambda>file.
           bind_err (cleaned (sql_line a) file) (\<lambda>d. Inr (Text d))), w)
      else if x \<in> set [''html''] then
        (bind_err (case src of
                     Buffer b \<Rightarrow> Inr b
                   | Path p \<Rightarrow> if orgn = HTTP then urlopen env src else open_read env w src)
           (\<lambda>file. bind_err (cleaned (html_line a) file) (\<lambda>d. Inr (Text d))), w)
      else if x \<in> set [''py'', ''sh''] then
        (bind_err (read_text env w src) (\<lambda>file.
           bind_err (cleaned (py_line a) file) (\<lambda>d. Inr (Text d))), w)
      else if x \<in> set [''js''] then
        (bind_err (read_text env w src) (\<lambda>file.
           bind_err (cleaned (js_line a) file) (\<lambda>d. Inr (Text d))), w)
      else if x \<in> set [''json''] then
        (case engine a of
           ECallable n \<Rightarrow> (Inl AttributeError, w)
         | EStr e \<Rightarrow>
             if str_lower e \<in> set [''json'']
             then (bind_err (open_read env w src) (\<lambda>file.
                     bind_err (json_loads file) (\<lambda>j. Inr (Json j))), w)
             else (Inr (Table (ReadJson src (kwargs a))), w))
      else if x \<in> set [''jsonc''] then
        (bind_err (read_text env w src) (\<lambda>file.
           bind_err (cleaned (jsonc_line a) file) (\<lambda>str_content.
             bind_err (json_loads (str_replace '', }'' ''}'' str_content)) (\<lambda>j. Inr (Json j)))), w)
      else if x \<in> set [''parq'', ''parquet''] then
        (if orgn = S3 then (Inr (Table (ReadParquet src)), w)
         else (case (if engine a = EStr ''auto'' then EStr ''pyarrow'' else engine a) of
                 EStr e \<Rightarrow>
                   if str_lower e \<in> set [''py'', ''pa'', ''pyarrow'']
                   then (Inr (Table (ParquetDataset src (kwargs a))), w)
                   else if str_lower e \<in> set [''fp'', ''fastparquet'']
                   then (Inr Empty, w)
                   else (Inl ValueError, w)
               | ECallable n \<Rightarrow> (Inr (Table (EngineCall n src (kwargs a))), w)))
      else if x \<in> set [''fea'', ''feather''] then (Inr (Table (ReadFeather src (kwargs a))), w)
      else if x \<in> set [''readonly'', ''read-only'', ''ro''] then
        (case src of
           Buffer b \<Rightarrow> (Inr Empty, w\<lparr>stdout := stdout w @ [b]\<rparr>)
         | Path p \<Rightarrow>
             (case open_read env w src of
                Inl e \<Rightarrow> (Inl e, w)
              | Inr file \<Rightarrow> (Inr Empty, w\<lparr>stdout := stdout w @ map str_rstrip (file_lines file)\<rparr>)))
      else (bind_err (open_read env w src) (\<lambda>file. Inr (Text file)), w))"

section \<open>\<^verbatim>\<open>read\<close>\<close>

definition resolved_extension :: "read_args \<Rightarrow> string" where
  \<comment> \<open>line 73: \<^verbatim>\<open>ext = path.split('.')[-1] if extension is None else extension\<close>\<close>
  "resolved_extension a =
     (case extension a of None \<Rightarrow> last (str_split ''.'' (path a)) | Some e \<Rightarrow> e)"

definition orgn_of :: "string \<Rightarrow> origin" where
  \<comment> \<open>lines 75 to 80\<close>
  "orgn_of p = (if prefix ''s3://'' p then S3 else if prefix ''http'' p then HTTP else Other)"

definition read :: "env \<Rightarrow> read_args \<Rightarrow> world \<Rightarrow> (error + value) \<times> world" where
  "read env a w =
     (let ext = resolved_extension a;
          orgn = orgn_of (path a)
      in case (if orgn = S3 then s3_fetch env a ext w else (Inr (Path (path a), ext), w)) of
           (Inl e, w') \<Rightarrow> (Inl e, w')
         | (Inr (src, ext'), w') \<Rightarrow> dispatch env a orgn src ext' w')"


section \<open>Vocabulary of the statements\<close>

text \<open>
  A file of a cache subdirectory comes from the store when it has the content of some
  listed object and the last path component of its key as its name. An object is wanted
  by the refresh loop when its key is not the prefix itself and contains one of the
  data-file extensions. A download is recorded with its destination.
\<close>

definition wanted :: "string \<Rightarrow> string \<times> string \<Rightarrow> bool" where
  "wanted fp kb = (fst kb \<noteq> fp \<and> (\<exists>e \<in> set data_extensions. str_contains e (fst kb)))"

definition download_call :: "env \<Rightarrow> string \<Rightarrow> string \<Rightarrow> string \<times> string \<Rightarrow> s3_call" where
  "download_call env bkt dir kb =
     DownloadFile bkt (fst kb) (path_join (path_join (data_path env) dir) (last (str_split ''/'' (fst kb))))"






section \<open>Concrete inputs\<close>

text \<open>
  A bucket with a directory marker, two data files and a note under the prefix
  \<^verbatim>\<open>data/\<close>; a cache root; and the default arguments of \<^verbatim>\<open>read\<close>.
\<close>

definition default_args :: read_args where
  "default_args =
     \<lparr>path = [], extension = None, parse = True, remove_comments = True, sep = '','',
      sheet_name = ''0'', engine = EStr ''auto'', cache = CStr ''30mins'', cache_name = None,
      kwargs = []\<rparr>"

definition example_env :: env where
  "example_env =
     \<lparr>session = SessionOk, config_error = None,
      buckets = [(''bucket'',
                  [(''data/'', []), (''data/notes.md'', ''N''), (''data/part.parquet'', ''P''),
                   (''table.csv'', ''a,b'')])],
      sha224_hex = (\<lambda>p. ''d14a028c''), data_path = ''/home/u/.pycof/data'',
      file_age = (\<lambda>p f. Inr 5), listdir_rank = (\<lambda>n. 0), http = []\<rparr>"

definition empty_world :: world where
  "empty_world = \<lparr>cache_dirs = [], files = [], stdout = [], s3_calls = []\<rparr>"

definition table_args :: read_args where
  "table_args = default_args\<lparr>path := ''s3://bucket/table.csv''\<rparr>"

definition dataset_args :: read_args where
  "dataset_args = default_args\<lparr>path := ''s3://bucket/data/''\<rparr>"

definition zero_args :: read_args where
  "zero_args = dataset_args\<lparr>cache := CStr ''0''\<rparr>"







definition hollow_world :: world where
  \<comment> \<open>the cache subdirectory of the data set exists and holds nothing\<close>
  "hollow_world = empty_world\<lparr>cache_dirs := [(''d14a028c'', [])]\<rparr>"

definition stale_world :: world where
  \<comment> \<open>the cache subdirectory of the data set holds a file of an earlier download\<close>
  "stale_world = empty_world\<lparr>cache_dirs := [(''d14a028c'', [(''old.parquet'', ''O'')])]\<rparr>"



section \<open>Facts about the string functions\<close>

lemma split_from_nonempty: "split_from sp acc s \<noteq> []"
  by (induction sp acc s rule: split_from.induct) auto

lemma last_split_from_char:
  "last (split_from [d] acc s) =
     (if d \<in> set s then rev (takeWhile (\<lambda>c. c \<noteq> d) (rev s)) else rev acc @ s)"
proof (induction s arbitrary: acc)
  case Nil
  then show ?case by simp
next
  case (Cons c cs)
  show ?case
  proof (cases "c = d")
    case True
    then show ?thesis
      using Cons.IH [of "[]"] split_from_nonempty [of "[d]" "[]" cs]
      by (auto simp: takeWhile_append)
  next
    case False
    then show ?thesis
      using Cons.IH [of "c # acc"]
      by (auto simp: takeWhile_append)
  qed
qed

lemma suffix_after_last:
  assumes "p = pre @ d # suf" "d \<notin> set suf"
  shows "rev (takeWhile (\<lambda>c. c \<noteq> d) (rev p)) = suf"
  using assms by (simp add: takeWhile_append)

section \<open>The resolved extension\<close>

text \<open>
  Claim C6. For every path given to \<^verbatim>\<open>read\<close>, the resolved extension is the explicit
  \<^verbatim>\<open>extension\<close> argument, verbatim, when one is supplied; otherwise it is what follows the
  final dot of the path, with its case as it stands (and the whole path when the path has
  no dot). Nothing is checked or rejected at this point: the result is a string for every
  input.
\<close>

theorem C6_resolved_extension:
  "(extension a = Some e \<longrightarrow> resolved_extension a = e) \<and>
   (extension a = None \<longrightarrow>
      (\<forall>pre suf. path a = pre @ ''.'' @ suf \<and> CHR ''.'' \<notin> set suf \<longrightarrow> resolved_extension a = suf) \<and>
      (CHR ''.'' \<notin> set (path a) \<longrightarrow> resolved_extension a = path a))"
proof (intro conjI impI allI)
  assume "extension a = Some e"
  then show "resolved_extension a = e" by (simp add: resolved_extension_def)
next
  fix pre suf
  assume none: "extension a = None"
    and dec: "path a = pre @ ''.'' @ suf \<and> CHR ''.'' \<notin> set suf"
  then have "CHR ''.'' \<in> set (path a)" by simp
  with none have "resolved_extension a = rev (takeWhile (\<lambda>c. c \<noteq> CHR ''.'') (rev (path a)))"
    by (simp add: resolved_extension_def str_split_def last_split_from_char)
  also have "\<dots> = suf"
    using dec suffix_after_last [of "path a" pre "CHR ''.''" suf] by simp
  finally show "resolved_extension a = suf" .
next
  assume "extension a = None" "CHR ''.'' \<notin> set (path a)"
  then show "resolved_extension a = path a"
    by (simp add: resolved_extension_def str_split_def last_split_from_char)
qed

theorem C6_resolved_extension_witness:
  "resolved_extension (default_args\<lparr>path := ''/in/Report.v2.CSV''\<rparr>) = ''CSV'' \<and>
   resolved_extension (default_args\<lparr>path := ''/in/Makefile''\<rparr>) = ''/in/Makefile'' \<and>
   resolved_extension (default_args\<lparr>path := ''/in/a.csv'', extension := Some ''Txt''\<rparr>) = ''Txt''"
proof -
  let ?A = "default_args\<lparr>path := ''/in/Report.v2.CSV''\<rparr>"
  let ?B = "default_args\<lparr>path := ''/in/Makefile''\<rparr>"
  let ?C = "default_args\<lparr>path := ''/in/a.csv'', extension := Some ''Txt''\<rparr>"
  have "extension ?A = None"
    by (simp add: default_args_def)
  with C6_resolved_extension [of ?A "[]"]
  have every: "\<forall>pre suf. path ?A = pre @ ''.'' @ suf \<and> CHR ''.'' \<notin> set suf
                 \<longrightarrow> resolved_extension ?A = suf"
    by blast
  have "path ?A = ''/in/Report.v2'' @ ''.'' @ ''CSV'' \<and> CHR ''.'' \<notin> set ''CSV''"
    by (simp add: default_args_def)
  with every have dotted: "resolved_extension ?A = ''CSV''"
    by blast
  have "extension ?B = None \<and> CHR ''.'' \<notin> set (path ?B)"
    by (simp add: default_args_def)
  with C6_resolved_extension [of ?B "[]"] have plain: "resolved_extension ?B = path ?B"
    by simp
  have "extension ?C = Some ''Txt''"
    by (simp add: default_args_def)
  with C6_resolved_extension [of ?C "''Txt''"] have given: "resolved_extension ?C = ''Txt''"
    by simp
  from dotted plain given show ?thesis
    by (simp add: default_args_def)
qed

section \<open>The object store and the cache: what a call touches\<close>

lemma dispatch_buffer_cache:
  "fst (dispatch env a orgn (Buffer b) ext v) = fst (dispatch env a orgn (Buffer b) ext w)"
  by (simp add: dispatch_def Let_def read_text_def open_read_def urlopen_def split: engine_arg.splits)

lemma dispatch_cache_dirs:
  "cache_dirs (snd (dispatch env a orgn src ext w)) = cache_dirs w"
  by (simp add: dispatch_def Let_def split: engine_arg.splits source.splits sum.splits)

lemma dispatch_s3_calls:
  "s3_calls (snd (dispatch env a orgn src ext w)) = s3_calls w"
  by (simp add: dispatch_def Let_def split: engine_arg.splits source.splits sum.splits)

lemma line_functions_ignore_cache:
  "sql_line (a\<lparr>cache := c, cache_name := n\<rparr>) = sql_line a"
  "html_line (a\<lparr>cache := c, cache_name := n\<rparr>) = html_line a"
  "py_line (a\<lparr>cache := c, cache_name := n\<rparr>) = py_line a"
  "js_line (a\<lparr>cache := c, cache_name := n\<rparr>) = js_line a"
  "jsonc_line (a\<lparr>cache := c, cache_name := n\<rparr>) = jsonc_line a"
  by (rule ext, simp add: sql_line_def html_line_def py_line_def js_line_def jsonc_line_def formatted_def)+

lemma dispatch_ignores_cache:
  "dispatch env (a\<lparr>cache := c, cache_name := n\<rparr>) orgn src ext w = dispatch env a orgn src ext w"
  by (simp add: dispatch_def Let_def line_functions_ignore_cache split: engine_arg.splits)

lemma get_object_calls:
  "s3_calls (snd (get_object env b k w)) = s3_calls w @ [GetObject b k] \<and>
   cache_dirs (snd (get_object env b k w)) = cache_dirs w"
  by (simp add: get_object_def Let_def split: option.splits)

lemma get_object_cache:
  "fst (get_object env b k (w\<lparr>cache_dirs := d\<rparr>)) = fst (get_object env b k w)"
  by (simp add: get_object_def Let_def split: option.splits)

lemma s3_fetch_streamable:
  assumes "str_lower ext \<in> set streamable"
  shows "s3_fetch env a ext v =
      (case authenticate env of
         Inl e \<Rightarrow> (Inl e, v)
       | Inr u \<Rightarrow> (case get_object env (bucket_of (path a)) (folder_path_of (path a)) v of
                     (Inl e, w') \<Rightarrow> (Inl e, w')
                   | (Inr body, w') \<Rightarrow> (Inr (Buffer body, ext), w')))"
  using assms by (simp add: s3_fetch_def Let_def split: sum.splits)

lemma read_s3:
  assumes "prefix ''s3://'' (path a)"
  shows "read env a v =
      (case s3_fetch env a (resolved_extension a) v of
         (Inl e, w') \<Rightarrow> (Inl e, w')
       | (Inr (src, ext'), w') \<Rightarrow> dispatch env a S3 src ext' w')"
  using assms by (simp add: read_def orgn_of_def Let_def)

text \<open>
  Claim C2. For every \<^verbatim>\<open>s3://\<close> path whose resolved extension, lowercased, is one of
  csv, txt, parq, parquet, fea, feather, html, json, js, py, sh, xls, xlsx, \<^verbatim>\<open>read\<close>
  leaves the cache subdirectories as they were, returns a result that does not depend on
  what the cache holds, and returns the same whatever the \<^verbatim>\<open>cache\<close> and \<^verbatim>\<open>cache_name\<close>
  arguments are (the freshness token is never parsed, so a malformed one cannot fail).
  Once the session is established, the only request to the object store is one
  \<^verbatim>\<open>get_object\<close> for the key of the path, and when that object exists its bytes, in a
  buffer, are what the decoding step receives.
\<close>

theorem C2_streamable_skips_cache:
  assumes s3: "prefix ''s3://'' (path a)"
    and ext: "str_lower (resolved_extension a) \<in> set streamable"
  shows "cache_dirs (snd (read env a w)) = cache_dirs w \<and>
         fst (read env a (w\<lparr>cache_dirs := d\<rparr>)) = fst (read env a w) \<and>
         read env (a\<lparr>cache := c, cache_name := n\<rparr>) w = read env a w \<and>
         (authenticate env = Inr () \<longrightarrow>
            s3_calls (snd (read env a w)) =
              s3_calls w @ [GetObject (bucket_of (path a)) (folder_path_of (path a))]) \<and>
         (\<forall>objs body.
            authenticate env = Inr () \<and>
            map_of (buckets env) (bucket_of (path a)) = Some objs \<and>
            map_of objs (folder_path_of (path a)) = Some body \<longrightarrow>
            read env a w =
              dispatch env a S3 (Buffer body) (resolved_extension a)
                (w\<lparr>s3_calls := s3_calls w @ [GetObject (bucket_of (path a)) (folder_path_of (path a))]\<rparr>))"
proof (intro conjI impI allI)
  let ?b = "bucket_of (path a)" and ?k = "folder_path_of (path a)"
  let ?a' = "a\<lparr>cache := c, cache_name := n\<rparr>"
  note fetch = s3_fetch_streamable [OF ext]
  note rd = read_s3 [OF s3]
  show "cache_dirs (snd (read env a w)) = cache_dirs w"
    using get_object_calls [of env ?b ?k w]
    by (auto simp: rd fetch dispatch_cache_dirs split: sum.splits prod.splits)
  show "fst (read env a (w\<lparr>cache_dirs := d\<rparr>)) = fst (read env a w)"
    by (auto simp: rd fetch get_object_def Let_def
             intro: dispatch_buffer_cache split: sum.splits prod.splits option.splits)
  have same: "resolved_extension ?a' = resolved_extension a" "path ?a' = path a"
    by (simp_all add: resolved_extension_def split: option.splits)
  have "read env ?a' w =
      (case s3_fetch env ?a' (resolved_extension a) w of
         (Inl e, w') \<Rightarrow> (Inl e, w')
       | (Inr (src, ext'), w') \<Rightarrow> dispatch env a S3 src ext' w')"
    using read_s3 [of ?a' env w] s3
    by (simp add: same dispatch_ignores_cache cong: prod.case_cong sum.case_cong)
  also have "s3_fetch env ?a' (resolved_extension a) w = s3_fetch env a (resolved_extension a) w"
    unfolding s3_fetch_streamable [OF ext] same by (rule refl)
  finally show "read env ?a' w = read env a w"
    by (simp add: rd)
  show "s3_calls (snd (read env a w)) = s3_calls w @ [GetObject ?b ?k]"
    if "authenticate env = Inr ()"
    using that get_object_calls [of env ?b ?k w]
    by (auto simp: rd fetch dispatch_s3_calls split: sum.splits prod.splits)
  show "read env a w =
          dispatch env a S3 (Buffer body) (resolved_extension a)
            (w\<lparr>s3_calls := s3_calls w @ [GetObject ?b ?k]\<rparr>)"
    if "authenticate env = Inr () \<and> map_of (buckets env) ?b = Some objs \<and> map_of objs ?k = Some body"
    for objs body
    using that by (simp add: rd fetch get_object_def Let_def)
qed


section \<open>A hit in the cache\<close>




lemma lower_plain:
  "str_lower ''csv'' = ''csv''"
  "str_lower ''s3://bucket/data/'' = ''s3://bucket/data/''"
  "str_lower ''30mins'' = ''30mins''"
  by (simp_all add: str_lower_def lower_char_def upper_chars_def lower_chars_def)

lemma c_time_30mins:
  "c_time (CStr ''30mins'') = Inr (Finite 30) \<and> age_fmt (CStr ''30mins'') = ''mins''"
  by code_simp

lemma table_args_facts:
  "path table_args = ''s3://bucket/table.csv''"
  "resolved_extension table_args = ''csv''"
  "bucket_of ''s3://bucket/table.csv'' = ''bucket''"
  "folder_path_of ''s3://bucket/table.csv'' = ''table.csv''"
  "sep table_args = '',''" "kwargs table_args = []"
  by (simp_all add: table_args_def default_args_def resolved_extension_def bucket_of_def
        folder_path_of_def str_split_def)

lemma dataset_args_facts:
  "path dataset_args = ''s3://bucket/data/''"
  "resolved_extension dataset_args = ''s3://bucket/data/''"
  "bucket_of ''s3://bucket/data/'' = ''bucket''"
  "folder_path_of ''s3://bucket/data/'' = ''data/''"
  "cache dataset_args = CStr ''30mins''"
  "file_name example_env dataset_args = ''d14a028c''"
  by (simp_all add: dataset_args_def default_args_def resolved_extension_def bucket_of_def
        folder_path_of_def str_split_def file_name_def example_env_def)

lemma example_env_facts:
  "authenticate example_env = Inr ()"
  "map_of (buckets example_env) ''bucket'' =
     Some [(''data/'', []), (''data/notes.md'', ''N''), (''data/part.parquet'', ''P''),
           (''table.csv'', ''a,b'')]"
  "data_path example_env = ''/home/u/.pycof/data''"
  "file_age example_env p f = Inr 5"
  by (simp_all add: authenticate_def example_env_def)

theorem C2_streamable_skips_cache_witness:
  "prefix ''s3://'' (path table_args) \<and>
   str_lower (resolved_extension table_args) \<in> set streamable \<and>
   read example_env table_args hollow_world =
     (Inr (Table (ReadCsv (Buffer ''a,b'') '','' [])),
      hollow_world\<lparr>s3_calls := [GetObject ''bucket'' ''table.csv'']\<rparr>)"
proof -
  have p: "prefix ''s3://'' (path table_args)"
    by (simp add: table_args_facts)
  have e: "str_lower (resolved_extension table_args) \<in> set streamable"
    by (simp add: table_args_facts lower_plain streamable_def)
  note inst = C2_streamable_skips_cache [where a = table_args and env = example_env
                 and w = hollow_world and d = "[]" and c = "CStr ''soon''" and n = None, OF p e]
  have found: "authenticate example_env = Inr () \<and>
      map_of (buckets example_env) (bucket_of (path table_args)) =
        Some [(''data/'', []), (''data/notes.md'', ''N''), (''data/part.parquet'', ''P''),
              (''table.csv'', ''a,b'')] \<and>
      map_of [(''data/'', []), (''data/notes.md'', ''N''), (''data/part.parquet'', ''P''),
              (''table.csv'', ''a,b'')] (folder_path_of (path table_args)) = Some ''a,b''"
    by (simp add: table_args_facts example_env_facts)
  from inst found have r: "read example_env table_args hollow_world =
      dispatch example_env table_args S3 (Buffer ''a,b'') (resolved_extension table_args)
        (hollow_world\<lparr>s3_calls := s3_calls hollow_world @
            [GetObject (bucket_of (path table_args)) (folder_path_of (path table_args))]\<rparr>)"
    by blast
  have d: "dispatch example_env table_args S3 (Buffer ''a,b'') ''csv'' v =
      (Inr (Table (ReadCsv (Buffer ''a,b'') '','' [])), v)" for v
    by (simp add: dispatch_def lower_plain table_args_facts)
  have "s3_calls hollow_world = []"
    by (simp add: hollow_world_def empty_world_def)
  with r d have "read example_env table_args hollow_world =
     (Inr (Table (ReadCsv (Buffer ''a,b'') '','' [])),
      hollow_world\<lparr>s3_calls := [GetObject ''bucket'' ''table.csv'']\<rparr>)"
    by (simp add: table_args_facts)
  with p e show ?thesis
    by blast
qed


section \<open>Refreshing and filling the cache\<close>

lemma download_file_calls:
  assumes "download_file env bkt dir key body w = (r, w')"
  shows "s3_calls w' = s3_calls w @
           [DownloadFile bkt key (path_join (path_join (data_path env) dir) (last (str_split ''/'' key)))]"
  using assms by (auto simp: download_file_def Let_def split: if_splits)

lemma refresh_loop_step:
  "refresh_loop env bkt fp dir ((key, body) # objs) ext w =
     (if \<not> wanted fp (key, body) then refresh_loop env bkt fp dir objs ext w
      else (case download_file env bkt dir key body w of
              (Inl e, w') \<Rightarrow> (Inl e, w')
            | (Inr u, w') \<Rightarrow> refresh_loop env bkt fp dir objs (last (str_split ''.'' key)) w'))"
  by (simp add: wanted_def)

lemma refresh_loop_calls:
  assumes "refresh_loop env bkt fp dir objs ext w = (Inr ext', w')"
  shows "s3_calls w' = s3_calls w @ map (download_call env bkt dir) (filter (wanted fp) objs)"
  using assms
proof (induction objs arbitrary: ext w)
  case Nil
  then show ?case by simp
next
  case (Cons kb objs)
  obtain key body where kb: "kb = (key, body)" by (cases kb)
  show ?case
  proof (cases "wanted fp kb")
    case False
    with Cons.prems kb have "refresh_loop env bkt fp dir objs ext w = (Inr ext', w')"
      by (simp add: refresh_loop_step del: refresh_loop.simps)
    from Cons.IH [OF this] False show ?thesis by simp
  next
    case True
    obtain r1 w1 where d: "download_file env bkt dir key body w = (r1, w1)"
      by (cases "download_file env bkt dir key body w")
    with Cons.prems True kb obtain u where r1: "r1 = Inr u"
      by (cases r1) (simp_all add: refresh_loop_step del: refresh_loop.simps)
    with Cons.prems True kb d
    have "refresh_loop env bkt fp dir objs (last (str_split ''.'' key)) w1 = (Inr ext', w')"
      by (simp add: refresh_loop_step del: refresh_loop.simps)
    from Cons.IH [OF this] download_file_calls [OF d] True show ?thesis
      by (simp add: download_call_def kb)
  qed
qed










lemma first_loop_calls:
  assumes "first_loop env bkt fp dir objs ext w = (Inr ext', w')"
  shows "s3_calls w' = s3_calls w @
           map (download_call env bkt dir) (filter (\<lambda>kb. fst kb \<noteq> fp) objs)"
  using assms
proof (induction objs arbitrary: ext w)
  case Nil
  then show ?case by simp
next
  case (Cons kb objs)
  obtain key body where kb: "kb = (key, body)" by (cases kb)
  show ?case
  proof (cases "key = fp")
    case True
    with Cons.prems kb have "first_loop env bkt fp dir objs ext w = (Inr ext', w')"
      by simp
    from Cons.IH [OF this] True kb show ?thesis by simp
  next
    case False
    obtain r1 w1 where d: "download_file env bkt dir key body w = (r1, w1)"
      by (cases "download_file env bkt dir key body w")
    with Cons.prems False kb obtain u where r1: "r1 = Inr u"
      by (cases r1) simp_all
    with Cons.prems False kb d
    have "first_loop env bkt fp dir objs (last (str_split ''.'' key)) w1 = (Inr ext', w')"
      by simp
    from Cons.IH [OF this] download_file_calls [OF d] False show ?thesis
      by (simp add: download_call_def kb)
  qed
qed

text \<open>
  Claim C1 says that both loops that fill a cache subdirectory skip the key equal to the
  prefix and every key without a data-file extension. The refresh loop (lines 146 to 151)
  does; the loop of the first download (lines 157 to 161) skips only the key equal to the
  prefix. The two lemmas above give the keys each loop downloads; the theorem runs both
  on the same bucket: the first download stores \<^verbatim>\<open>notes.md\<close>, the refresh does not.
\<close>

theorem C1_first_download_takes_every_key:
  "cache_dirs (snd (read example_env dataset_args empty_world)) =
     [(''d14a028c'', [(''notes.md'', ''N''), (''part.parquet'', ''P'')])] \<and>
   cache_dirs (snd (read example_env zero_args stale_world)) =
     [(''d14a028c'', [(''part.parquet'', ''P'')])]"
  by code_simp

section \<open>Local files\<close>







section \<open>The engine argument\<close>









section \<open>Scripts\<close>













end
